theory Spec2Isabelle
  imports Main
begin

section \<open>Text primitives of the Python source\<close>

text \<open>
  A Python \<open>str\<close> is a sequence of code points. The model uses \<^typ>\<open>string\<close>, reading
  each \<^typ>\<open>char\<close> as the code point of the same number (the code points below 256).
  \<open>isspace\<close> is the class that both \<open>\s\<close> of the \<open>re\<close> module and \<open>str.strip()\<close> use,
  cut down to that range.
\<close>

abbreviation nl :: char where
  "nl \<equiv> CHR 0x0A"

abbreviation bsl :: char where
  "bsl \<equiv> CHR 0x5C"

definition isspace :: "char \<Rightarrow> bool" where
  "isspace c \<longleftrightarrow> c \<in> set [CHR 0x09, CHR 0x0A, CHR 0x0B, CHR 0x0C, CHR 0x0D,
     CHR 0x1C, CHR 0x1D, CHR 0x1E, CHR 0x1F, CHR 0x20, CHR 0x85, CHR 0xA0]"

definition strip :: "string \<Rightarrow> string" where
  "strip s = rev (dropWhile isspace (rev (dropWhile isspace s)))"

text \<open>\<open>s.split(d)\<close> for a one-character separator: never the empty list.\<close>

fun split_on :: "char \<Rightarrow> string \<Rightarrow> string list" where
  "split_on d [] = [[]]"
| "split_on d (c # cs) =
     (if c = d then [] # split_on d cs
      else (case split_on d cs of
              [] \<Rightarrow> [[c]]
            | l # ls \<Rightarrow> (c # l) # ls))"

text \<open>\<open>sep.join(xs)\<close>.\<close>

fun join :: "string \<Rightarrow> string list \<Rightarrow> string" where
  "join sep [] = []"
| "join sep [x] = x"
| "join sep (x # y # ys) = x @ sep @ join sep (y # ys)"

text \<open>\<open>s.replace(a, r)\<close> for a one-character \<open>a\<close>.\<close>

definition replace_char :: "char \<Rightarrow> string \<Rightarrow> string \<Rightarrow> string" where
  "replace_char a r s = concat (map (\<lambda>c. if c = a then r else [c]) s)"

text \<open>\<open>str.lower()\<close> on the code points below 256: the ASCII capitals and the
  Latin-1 capitals \<open>0xC0..0xDE\<close> without the multiplication sign \<open>0xD7\<close>.\<close>

definition lower_char :: "char \<Rightarrow> char" where
  "lower_char c =
     (let n = (of_char c :: nat) in
      if (65 \<le> n \<and> n \<le> 90) \<or> (192 \<le> n \<and> n \<le> 222 \<and> n \<noteq> 215)
      then char_of (n + 32) else c)"

definition lower :: "string \<Rightarrow> string" where
  "lower s = map lower_char s"

text \<open>The decimal numeral that an f-string prints for a non-negative \<open>int\<close>.\<close>

fun show_nat :: "nat \<Rightarrow> string" where
  "show_nat n =
     (if n < 10 then [''0123456789'' ! n]
      else show_nat (n div 10) @ [''0123456789'' ! (n mod 10)])"

declare show_nat.simps [simp del]


section \<open>Regular-expression substitution\<close>

text \<open>
  A compiled pattern is modelled by its matcher: given whether the position is at the
  start of a line (what \<open>^\<close> tests under \<open>re.MULTILINE\<close>, and the start of the string
  otherwise) and the text from the position on, it returns the groups of the match
  found there and the text left after it. None of the patterns of the source matches
  the empty string.

  \<open>re.sub(pattern, repl, text)\<close> scans left to right: where the pattern matches, the
  replacement is emitted and the scan goes on after the match; elsewhere the character
  is copied.
\<close>

type_synonym 'g matcher = "bool \<Rightarrow> string \<Rightarrow> ('g \<times> string) option"

fun re_sub :: "'g matcher \<Rightarrow> ('g \<Rightarrow> string) \<Rightarrow> bool \<Rightarrow> string \<Rightarrow> string" where
  "re_sub m repl bol [] = []"
| "re_sub m repl bol (c # cs) =
     (case m bol (c # cs) of
        None \<Rightarrow> c # re_sub m repl (c = nl) cs
      | Some (g, rest) \<Rightarrow>
          if length rest \<le> length cs
          then repl g @
               re_sub m repl (last (take (Suc (length cs) - length rest) (c # cs)) = nl) rest
          else c # re_sub m repl (c = nl) cs)"

text \<open>The same scan with a replacement callback that reads and updates a state.\<close>

fun re_sub_st :: "'g matcher \<Rightarrow> ('g \<Rightarrow> 's \<Rightarrow> string \<times> 's) \<Rightarrow> bool \<Rightarrow> string \<Rightarrow> 's
    \<Rightarrow> string \<times> 's" where
  "re_sub_st m repl bol [] st = ([], st)"
| "re_sub_st m repl bol (c # cs) st =
     (case m bol (c # cs) of
        None \<Rightarrow> (case re_sub_st m repl (c = nl) cs st of (out, st') \<Rightarrow> (c # out, st'))
      | Some (g, rest) \<Rightarrow>
          if length rest \<le> length cs
          then (case repl g st of (r, st1) \<Rightarrow>
                 (case re_sub_st m repl
                         (last (take (Suc (length cs) - length rest) (c # cs)) = nl) rest st1 of
                    (out, st2) \<Rightarrow> (r @ out, st2)))
          else (case re_sub_st m repl (c = nl) cs st of (out, st') \<Rightarrow> (c # out, st')))"

text \<open>\<open>re.search(pattern, text)\<close>, as a truth value.\<close>

fun re_search :: "'g matcher \<Rightarrow> bool \<Rightarrow> string \<Rightarrow> bool" where
  "re_search m bol [] = False"
| "re_search m bol (c # cs) = (m bol (c # cs) \<noteq> None \<or> re_search m (c = nl) cs)"


section \<open>Headings\<close>

text \<open>
  The tail \<open>\s+(.+)$\<close> (\<open>k = 1\<close>) or \<open>\s*(.+)$\<close> (\<open>k = 0\<close>) of a line pattern. The greedy
  \<open>\s\<close> run takes all the white space there is, newlines included. If a character that
  is not white space follows, the group is the rest of that line. Otherwise the run
  reaches the end of the text and the matcher backtracks: the group is the last
  character of the run that is not a newline, provided at least \<open>k\<close> characters stay
  in front of it.
\<close>

definition ws_text :: "nat \<Rightarrow> string \<Rightarrow> (string \<times> string) option" where
  "ws_text k s =
     (let w = takeWhile isspace s; r = dropWhile isspace s in
      if r \<noteq> [] then
        (if k \<le> length w
         then Some (takeWhile (\<lambda>c. c \<noteq> nl) r, dropWhile (\<lambda>c. c \<noteq> nl) r)
         else None)
      else
        (case dropWhile (\<lambda>c. c = nl) (rev (drop k w)) of
           [] \<Rightarrow> None
         | x # _ \<Rightarrow> Some ([x], takeWhile (\<lambda>c. c = nl) (rev (drop k w)))))"

text \<open>
  \<open>^(#{1,6})\s+(.+)$\<close>: a run of one to six marks (a seventh mark cannot be matched by
  \<open>\s\<close>), then the tail above. The groups are the marks and the title.
\<close>

definition heading_re :: "(string \<times> string) matcher" where
  "heading_re bol s =
     (let h = takeWhile (\<lambda>c. c = CHR ''#'') s in
      if bol \<and> 1 \<le> length h \<and> length h \<le> 6 then
        (case ws_text 1 (dropWhile (\<lambda>c. c = CHR ''#'') s) of
           None \<Rightarrow> None
         | Some (t, rest) \<Rightarrow> Some ((h, t), rest))
      else None)"


section \<open>Compilation statistics and the vault\<close>

record CompilationStats =
  files_embedded :: "string set"
  sections_processed :: nat
  images_copied :: "string set"
  internal_links :: nat
  warnings :: "string list"

definition add_warning :: "string \<Rightarrow> CompilationStats \<Rightarrow> CompilationStats" where
  "add_warning message st = st\<lparr>warnings := warnings st @ [message]\<rparr>"

definition new_stats :: CompilationStats where
  "new_stats = \<lparr>files_embedded = {}, sections_processed = 0, images_copied = {},
     internal_links = 0, warnings = []\<rparr>"

text \<open>The exceptions of the source that no handler catches: each ends the run.\<close>

datatype error = NotImplementedError | ValueError | AttributeError

text \<open>
  What the program reads from outside, as parameters: \<open>direct_file name\<close> is the text of
  the file \<open>vault_path / "name.md"\<close> when that path exists, \<open>searched_file name\<close> the
  text of the first file that \<open>vault_path.rglob("name.md")\<close> yields (\<open>None\<close> when it
  yields none), \<open>yaml_ok\<close> tells whether \<open>yaml.safe_load\<close> accepts a front-matter block,
  \<open>attachment_exists\<close> whether the attachments folder holds a file of that name, and
  \<open>note_path name\<close> is the printed path \<open>vault_path / "name.md"\<close>.
\<close>

record Vault =
  direct_file :: "string \<Rightarrow> string option"
  searched_file :: "string \<Rightarrow> string option"
  yaml_ok :: "string \<Rightarrow> bool"
  attachment_exists :: "string \<Rightarrow> bool"
  note_path :: "string \<Rightarrow> string"

record ObsidianParser =
  embedded_files :: "string set"
  stats :: CompilationStats

definition new_parser :: "CompilationStats \<Rightarrow> ObsidianParser" where
  "new_parser st = \<lparr>embedded_files = {}, stats = st\<rparr>"

text \<open>A literal piece of a pattern: the text after it, when the text starts with it.\<close>

definition lit :: "string \<Rightarrow> string \<Rightarrow> string option" where
  "lit p s = (if take (length p) s = p then Some (drop (length p) s) else None)"

text \<open>\<open>s.index(p)\<close>: the first position where \<open>p\<close> occurs, \<open>None\<close> for \<open>ValueError\<close>.\<close>

fun index_of :: "string \<Rightarrow> string \<Rightarrow> nat option" where
  "index_of p [] = (if p = [] then Some 0 else None)"
| "index_of p (c # cs) =
     (if take (length p) (c # cs) = p then Some 0 else map_option Suc (index_of p cs))"

text \<open>
  The body that \<open>read_file\<close> returns for a file that exists: the text after a leading
  front-matter block when there is one that ends and parses, the whole text otherwise.
  The front matter itself is only read by the document assembler.
\<close>

definition read_file :: "Vault \<Rightarrow> string \<Rightarrow> string" where
  "read_file v content =
     (if take 4 content = ''---'' @ [nl] then
        (case index_of ([nl] @ ''---'' @ [nl]) (drop 4 content) of
           None \<Rightarrow> content
         | Some i \<Rightarrow>
             if yaml_ok v (take i (drop 4 content)) then drop (4 + i + 5) content
             else content)
      else content)"


section \<open>Section extraction and heading demotion\<close>

text \<open>
  The loop of \<open>extract_section\<close> over the lines, with its three variables. A line is
  matched with \<open>re.match\<close> and no flag; lines hold no newline, where that and the
  multi-line matcher agree.
\<close>

fun extract_loop :: "string \<Rightarrow> bool \<Rightarrow> nat option \<Rightarrow> string list \<Rightarrow> string list
    \<Rightarrow> bool \<times> string list" where
  "extract_loop section_name in_section section_level result_lines [] =
     (in_section, result_lines)"
| "extract_loop section_name in_section section_level result_lines (line # lines) =
     (case heading_re True line of
        None \<Rightarrow>
          extract_loop section_name in_section section_level
            (if in_section then result_lines @ [line] else result_lines) lines
      | Some ((hashes, title), _) \<Rightarrow>
          if strip title = section_name \<and> \<not> in_section
          then extract_loop section_name True (Some (length hashes)) result_lines lines
          else if in_section \<and> (case section_level of None \<Rightarrow> False
                                 | Some lv \<Rightarrow> length hashes \<le> lv)
          then (in_section, result_lines)
          else extract_loop section_name in_section section_level
                 (if in_section then result_lines @ [line] else result_lines) lines)"

definition extract_section :: "string \<Rightarrow> string \<Rightarrow> CompilationStats
    \<Rightarrow> string option \<times> CompilationStats" where
  "extract_section content section_name st =
     (case extract_loop section_name False None [] (split_on nl content) of
        (in_section, result_lines) \<Rightarrow>
          if \<not> in_section
          then (None, add_warning (''Section '' @ [CHR 0x27] @ section_name @ [CHR 0x27]
                        @ '' not found'') st)
          else (Some (join [nl] result_lines), st))"

definition demoted :: "nat \<Rightarrow> string \<times> string \<Rightarrow> string" where
  "demoted levels g =
     (case g of (current_hashes, title) \<Rightarrow>
        replicate (min (length current_hashes + levels) 6) (CHR ''#'') @ '' '' @ title)"

definition demote_headings :: "string \<Rightarrow> nat \<Rightarrow> string" where
  "demote_headings content levels = re_sub heading_re (demoted levels) True content"


section \<open>Embed resolution\<close>

text \<open>
  \<open>!\[\[([^\]#]+)(?:#([^\]]+))?\]\]\<close>, matched at the start of the embed text. Both
  classes are greedy and neither can hold the character that must follow, so a shorter
  run never helps: the first group is the run up to the first \<open>#\<close> or \<open>]\<close>, the second
  the run after the \<open>#\<close> up to the first \<open>]\<close>.
\<close>

definition embed_re :: "(string \<times> string option) matcher" where
  "embed_re bol s =
     (case lit ''![['' s of
        None \<Rightarrow> None
      | Some r \<Rightarrow>
          let g1 = takeWhile (\<lambda>c. c \<noteq> CHR '']'' \<and> c \<noteq> CHR ''#'') r;
              r1 = dropWhile (\<lambda>c. c \<noteq> CHR '']'' \<and> c \<noteq> CHR ''#'') r
          in if g1 = [] then None
             else (case lit '']]'' r1 of
                     Some rest \<Rightarrow> Some ((g1, None), rest)
                   | None \<Rightarrow>
                       (case lit ''#'' r1 of
                          None \<Rightarrow> None
                        | Some r2 \<Rightarrow>
                            let g2 = takeWhile (\<lambda>c. c \<noteq> CHR '']'') r2;
                                r3 = dropWhile (\<lambda>c. c \<noteq> CHR '']'') r2
                            in if g2 = [] then None
                               else (case lit '']]'' r3 of
                                       None \<Rightarrow> None
                                     | Some rest \<Rightarrow> Some ((g1, Some g2), rest)))))"

text \<open>
  \<open>x.strip() if x else None\<close> for an optional group. Every later use of the value is
  behind a truth test (\<open>if section\<close>, \<open>if display\<close>), where an empty string counts as
  \<open>None\<close>, so the model returns \<open>None\<close> for it.
\<close>

definition stripped_group :: "string option \<Rightarrow> string option" where
  "stripped_group g =
     (case g of
        None \<Rightarrow> None
      | Some x \<Rightarrow> if strip x = [] then None else Some (strip x))"

text \<open>
  \<open>Path.rglob\<close> checks its pattern before it searches. The pattern is cut at \<open>/\<close> into
  parts, empty parts and \<open>.\<close> left out. A pattern that starts with \<open>/\<close> has a root and
  raises \<open>NotImplementedError\<close>; a part that holds \<open>**\<close> without being \<open>**\<close> raises
  \<open>ValueError\<close>.
\<close>

definition pattern_parts :: "string \<Rightarrow> string list" where
  "pattern_parts pattern =
     filter (\<lambda>part. part \<noteq> [] \<and> part \<noteq> ''.'') (split_on (CHR ''/'') pattern)"

definition rglob_check :: "string \<Rightarrow> error option" where
  "rglob_check pattern =
     (if take 1 pattern = ''/'' then Some NotImplementedError
      else if filter (\<lambda>part. part \<noteq> ''**'' \<and> index_of ''**'' part \<noteq> None)
                (pattern_parts pattern) \<noteq> []
      then Some ValueError
      else None)"

text \<open>
  \<open>_find_file\<close>, with the text of the file in place of its path: the direct path when it
  exists, otherwise the first result of the recursive search, which raises on a pattern
  it does not accept.
\<close>

definition find_file :: "Vault \<Rightarrow> string \<Rightarrow> error + string option" where
  "find_file v filename =
     (case direct_file v filename of
        Some raw \<Rightarrow> Inr (Some raw)
      | None \<Rightarrow>
          (case rglob_check (filename @ ''.md'') of
             Some e \<Rightarrow> Inl e
           | None \<Rightarrow> Inr (searched_file v filename)))"

text \<open>The embed key: the name, with \<open>#section\<close> when a section is given.\<close>

definition key_of :: "string \<Rightarrow> string option \<Rightarrow> string" where
  "key_of filename section =
     (case section of
        None \<Rightarrow> filename
      | Some sec \<Rightarrow> filename @ ''#'' @ sec)"

definition resolve_embed :: "Vault \<Rightarrow> string \<Rightarrow> nat \<Rightarrow> nat \<Rightarrow> ObsidianParser
    \<Rightarrow> error + string \<times> ObsidianParser" where
  "resolve_embed v embed_match current_heading_level line_num p =
     (case embed_re True embed_match of
        None \<Rightarrow> Inr (embed_match, p)
      | Some ((g1, g2), _) \<Rightarrow>
          let filename = strip g1;
              section = stripped_group g2;
              embed_key = key_of filename section
          in if embed_key \<in> embedded_files p
             then Inr ([], p\<lparr>stats := add_warning (''Duplicate embed skipped: '' @ embed_key
                            @ '' (line '' @ show_nat line_num @ '')'') (stats p)\<rparr>)
             else
               let p1 = p\<lparr>embedded_files := insert embed_key (embedded_files p),
                          stats := (stats p)\<lparr>files_embedded :=
                                     insert filename (files_embedded (stats p))\<rparr>\<rparr>
               in (case find_file v filename of
                     Inl e \<Rightarrow> Inl e
                   | Inr None \<Rightarrow>
                       Inr (''[MISSING: '' @ filename @ '']'',
                        p1\<lparr>stats := add_warning (''Missing file: '' @ filename
                              @ ''.md (line '' @ show_nat line_num @ '')'') (stats p1)\<rparr>)
                   | Inr (Some raw) \<Rightarrow>
                       (case section of
                          None \<Rightarrow>
                            Inr (demote_headings (read_file v raw) 1,
                             p1\<lparr>stats := (stats p1)\<lparr>sections_processed :=
                                            Suc (sections_processed (stats p1))\<rparr>\<rparr>)
                        | Some sec \<Rightarrow>
                            (case extract_section (read_file v raw) sec (stats p1) of
                               (None, st) \<Rightarrow>
                                 Inr (''[MISSING SECTION: '' @ filename @ ''#'' @ sec @ '']'',
                                  p1\<lparr>stats := st\<rparr>)
                             | (Some content, st) \<Rightarrow>
                                 Inr (demote_headings content 1,
                                  p1\<lparr>stats := st\<lparr>sections_processed :=
                                                 Suc (sections_processed st)\<rparr>\<rparr>)))))"

text \<open>\<open>^(#{1,6})\s+\<close>, matched at the start of a line: the number of marks.\<close>

definition heading_prefix_re :: "string \<Rightarrow> nat option" where
  "heading_prefix_re s =
     (let h = takeWhile (\<lambda>c. c = CHR ''#'') s in
      if 1 \<le> length h \<and> length h \<le> 6
         \<and> takeWhile isspace (dropWhile (\<lambda>c. c = CHR ''#'') s) \<noteq> []
      then Some (length h) else None)"

text \<open>The lines \<open>lines[current_idx - 1]\<close> down to \<open>lines[0]\<close>, searched in that order.\<close>

fun first_level :: "string list \<Rightarrow> nat" where
  "first_level [] = 0"
| "first_level (l # ls) =
     (case heading_prefix_re l of Some n \<Rightarrow> n | None \<Rightarrow> first_level ls)"

definition get_current_heading_level :: "string list \<Rightarrow> nat \<Rightarrow> nat" where
  "get_current_heading_level lines current_idx = first_level (rev (take current_idx lines))"

text \<open>\<open>!\[\[[^\]]+\]\]\<close>: the whole match is what the callback receives.\<close>

definition embed_token_re :: "string matcher" where
  "embed_token_re bol s =
     (case lit ''![['' s of
        None \<Rightarrow> None
      | Some r \<Rightarrow>
          let g = takeWhile (\<lambda>c. c \<noteq> CHR '']'') r in
          if g = [] then None
          else (case lit '']]'' (dropWhile (\<lambda>c. c \<noteq> CHR '']'') r) of
                  None \<Rightarrow> None
                | Some rest \<Rightarrow> Some (''![['' @ g @ '']]'', rest)))"

text \<open>
  The callback \<open>replace_embed\<close> of the substitution. An exception raised by the resolver
  ends the run: the state becomes the error and stays so.
\<close>

definition replace_embed :: "Vault \<Rightarrow> nat \<Rightarrow> nat \<Rightarrow> string \<Rightarrow> error + ObsidianParser
    \<Rightarrow> string \<times> (error + ObsidianParser)" where
  "replace_embed v current_level line_num g r =
     (case r of
        Inl e \<Rightarrow> ([], Inl e)
      | Inr p \<Rightarrow>
          (case resolve_embed v g current_level line_num p of
             Inl e \<Rightarrow> ([], Inl e)
           | Inr (out, p') \<Rightarrow> (out, Inr p')))"

fun process_lines :: "Vault \<Rightarrow> string list \<Rightarrow> nat \<Rightarrow> string list \<Rightarrow> ObsidianParser
    \<Rightarrow> error + string list \<times> ObsidianParser" where
  "process_lines v lines line_num [] p = Inr ([], p)"
| "process_lines v lines line_num (line # rest) p =
     (case (if re_search embed_token_re True line
            then re_sub_st embed_token_re
                   (replace_embed v (get_current_heading_level lines line_num) line_num)
                   True line (Inr p)
            else (line, Inr p)) of
        (line', Inl e) \<Rightarrow> Inl e
      | (line', Inr p1) \<Rightarrow>
          (case process_lines v lines (Suc line_num) rest p1 of
             Inl e \<Rightarrow> Inl e
           | Inr (result_lines, p2) \<Rightarrow> Inr (line' # result_lines, p2)))"

definition process_embeds :: "Vault \<Rightarrow> string \<Rightarrow> ObsidianParser
    \<Rightarrow> error + string \<times> ObsidianParser" where
  "process_embeds v content p =
     (case process_lines v (split_on nl content) 1 (split_on nl content) p of
        Inl e \<Rightarrow> Inl e
      | Inr (result_lines, p') \<Rightarrow> Inr (join [nl] result_lines, p'))"


section \<open>The converter: links\<close>

record Config =
  vault_name :: string
  obsidian_uri :: bool

record LatexConverter =
  label_counter :: nat
  section_labels :: "string \<Rightarrow> string option"
  conv_stats :: CompilationStats

definition new_converter :: "CompilationStats \<Rightarrow> LatexConverter" where
  "new_converter st = \<lparr>label_counter = 0, section_labels = Map.empty, conv_stats = st\<rparr>"

text \<open>
  \<open>\[\[([^\]#|]+)(?:#([^\]|]+))?(?:\|([^\]]+))?\]\]\<close>. Each class is greedy and cannot
  hold the character that has to come after it, so every run is the longest one; an
  optional group whose class would be empty is left out, and then the closing brackets
  do not follow.
\<close>

definition wikilink_re :: "(string \<times> string option \<times> string option) matcher" where
  "wikilink_re bol s =
     (case lit ''[['' s of
        None \<Rightarrow> None
      | Some r \<Rightarrow>
          let is1 = (\<lambda>c. c \<noteq> CHR '']'' \<and> c \<noteq> CHR ''#'' \<and> c \<noteq> CHR ''|'');
              is2 = (\<lambda>c. c \<noteq> CHR '']'' \<and> c \<noteq> CHR ''|'');
              is3 = (\<lambda>c. c \<noteq> CHR '']'');
              g1 = takeWhile is1 r;
              r1 = dropWhile is1 r;
              g2 = (case lit ''#'' r1 of
                      None \<Rightarrow> None
                    | Some x \<Rightarrow> if takeWhile is2 x = [] then None else Some (takeWhile is2 x));
              r2 = (case g2 of None \<Rightarrow> r1 | Some _ \<Rightarrow> dropWhile is2 (drop 1 r1));
              g3 = (case lit ''|'' r2 of
                      None \<Rightarrow> None
                    | Some x \<Rightarrow> if takeWhile is3 x = [] then None else Some (takeWhile is3 x));
              r3 = (case g3 of None \<Rightarrow> r2 | Some _ \<Rightarrow> dropWhile is3 (drop 1 r2))
          in if g1 = [] then None
             else (case lit '']]'' r3 of
                     None \<Rightarrow> None
                   | Some rest \<Rightarrow> Some ((g1, g2, g3), rest)))"

definition replace_link :: "Config \<Rightarrow> Vault \<Rightarrow> (string \<Rightarrow> string option)
    \<Rightarrow> string \<times> string option \<times> string option \<Rightarrow> CompilationStats
    \<Rightarrow> string \<times> CompilationStats" where
  "replace_link cfg v labels g st =
     (case g of (g1, g2, g3) \<Rightarrow>
        let filename = strip g1;
            section = stripped_group g2;
            display = stripped_group g3;
            link_text = (case display of
                           Some d \<Rightarrow> d
                         | None \<Rightarrow> (case section of Some sec \<Rightarrow> sec | None \<Rightarrow> filename));
            embed_key = key_of filename section
        in if embed_key \<in> files_embedded st \<or> filename \<in> files_embedded st
           then
             (let label = (case labels embed_key of
                             Some l \<Rightarrow> l
                           | None \<Rightarrow> ''sec:'' @ replace_char (CHR '' '') ''_'' filename)
              in ([bsl] @ ''hyperref['' @ label @ '']{'' @ link_text @ ''}'',
                  st\<lparr>internal_links := Suc (internal_links st)\<rparr>))
           else if obsidian_uri cfg
           then
             (let file_part = replace_char (CHR '' '') ''%20'' filename;
                  uri = ''obsidian://open?vault='' @ vault_name cfg @ ''&file='' @ file_part
                        @ (case section of
                             None \<Rightarrow> []
                           | Some sec \<Rightarrow> ''&heading='' @ replace_char (CHR '' '') ''%20'' sec)
              in ([bsl] @ ''href{'' @ uri @ ''}{'' @ link_text @ ''}'', st))
           else
             ([bsl] @ ''href{file://'' @ note_path v filename @ ''}{'' @ link_text @ ''}'', st))"

definition convert_wikilinks :: "Config \<Rightarrow> Vault \<Rightarrow> string \<Rightarrow> LatexConverter
    \<Rightarrow> string \<times> LatexConverter" where
  "convert_wikilinks cfg v content cv =
     (case re_sub_st wikilink_re (replace_link cfg v (section_labels cv)) True content
             (conv_stats cv) of
        (out, st) \<Rightarrow> (out, cv\<lparr>conv_stats := st\<rparr>))"


section \<open>The converter: images\<close>

text \<open>The tail \<open>\.(png|jpg|jpeg|gif|pdf)\<close> under \<open>re.IGNORECASE\<close>, after at least one
  character of the class before it.\<close>

definition image_name :: "string \<Rightarrow> bool" where
  "image_name r \<longleftrightarrow>
     (4 < length r \<and> lower (drop (length r - 4) r) \<in> set [''.png'', ''.jpg'', ''.gif'', ''.pdf''])
     \<or> (5 < length r \<and> lower (drop (length r - 5) r) = ''.jpeg'')"

text \<open>\<open>!\[\[([^\]]+\.(png|jpg|jpeg|gif|pdf))\]\]\<close>: the class cannot hold \<open>]\<close>, so
  the first group is the whole run up to the brackets and must end in an extension.\<close>

definition image_embed_re :: "string matcher" where
  "image_embed_re bol s =
     (case lit ''![['' s of
        None \<Rightarrow> None
      | Some r \<Rightarrow>
          if image_name (takeWhile (\<lambda>c. c \<noteq> CHR '']'') r)
          then (case lit '']]'' (dropWhile (\<lambda>c. c \<noteq> CHR '']'') r) of
                  None \<Rightarrow> None
                | Some rest \<Rightarrow> Some (takeWhile (\<lambda>c. c \<noteq> CHR '']'') r, rest))
          else None)"

text \<open>\<open>!\[([^\]]*)\]\(([^)]+\.(png|jpg|jpeg|gif|pdf))\)\<close>: the group handed on is the
  second one, the path between the parentheses.\<close>

definition image_link_re :: "string matcher" where
  "image_link_re bol s =
     (case lit ''!['' s of
        None \<Rightarrow> None
      | Some r \<Rightarrow>
          (case lit ''](''  (dropWhile (\<lambda>c. c \<noteq> CHR '']'') r) of
             None \<Rightarrow> None
           | Some r1 \<Rightarrow>
               if image_name (takeWhile (\<lambda>c. c \<noteq> CHR '')'') r1)
               then (case lit '')'' (dropWhile (\<lambda>c. c \<noteq> CHR '')'') r1) of
                       None \<Rightarrow> None
                     | Some rest \<Rightarrow> Some (takeWhile (\<lambda>c. c \<noteq> CHR '')'') r1, rest))
               else None))"

text \<open>
  \<open>replace_image\<close> on the first group of its match. Copying the file into the output
  folder is recorded by \<open>images_copied\<close>; the bytes are not modelled.
\<close>

definition replace_image :: "Vault \<Rightarrow> string \<Rightarrow> CompilationStats \<Rightarrow> string \<times> CompilationStats" where
  "replace_image v g st =
     (let filename = strip g in
      if \<not> attachment_exists v filename
      then (''[MISSING IMAGE: '' @ filename @ '']'',
            add_warning (''Image not found: '' @ filename) st)
      else ([bsl] @ ''includegraphics[max width='' @ [bsl] @ ''textwidth]{images/''
              @ filename @ ''}'',
            st\<lparr>images_copied := insert filename (images_copied st)\<rparr>))"

text \<open>
  The second substitution calls \<open>replace_image(re.match(r'(.+)', m.group(2)))\<close>. When
  the path starts with a newline that inner match is \<open>None\<close> and \<open>replace_image\<close> raises
  \<open>AttributeError\<close>, which ends the run: the state becomes the error and stays so.
\<close>

definition replace_image_link :: "Vault \<Rightarrow> string \<Rightarrow> error + CompilationStats
    \<Rightarrow> string \<times> (error + CompilationStats)" where
  "replace_image_link v g2 r =
     (case r of
        Inl e \<Rightarrow> ([], Inl e)
      | Inr st \<Rightarrow>
          if takeWhile (\<lambda>c. c \<noteq> nl) g2 = [] then ([], Inl AttributeError)
          else (case replace_image v (takeWhile (\<lambda>c. c \<noteq> nl) g2) st of
                  (out, st') \<Rightarrow> (out, Inr st')))"

definition convert_images :: "Vault \<Rightarrow> string \<Rightarrow> LatexConverter
    \<Rightarrow> error + string \<times> LatexConverter" where
  "convert_images v content cv =
     (case re_sub_st image_embed_re (replace_image v) True content (conv_stats cv) of
        (content1, st1) \<Rightarrow>
          (case re_sub_st image_link_re (replace_image_link v) True content1 (Inr st1) of
             (content2, Inl e) \<Rightarrow> Inl e
           | (content2, Inr st2) \<Rightarrow> Inr (content2, cv\<lparr>conv_stats := st2\<rparr>)))"


section \<open>The converter: footnotes\<close>

text \<open>\<open>\w\<close> on the code points below 256: what \<open>str.isalnum()\<close> accepts, and the
  underscore.\<close>

definition isword :: "char \<Rightarrow> bool" where
  "isword c \<longleftrightarrow>
     (let n = (of_char c :: nat) in
      (48 \<le> n \<and> n \<le> 57) \<or> (65 \<le> n \<and> n \<le> 90) \<or> n = 95 \<or> (97 \<le> n \<and> n \<le> 122)
      \<or> n \<in> set [170, 178, 179, 181, 185, 186, 188, 189, 190]
      \<or> (192 \<le> n \<and> n \<noteq> 215 \<and> n \<noteq> 247))"

text \<open>\<open>\^\[([^\]]+)\]\<close>.\<close>

definition inline_footnote_re :: "string matcher" where
  "inline_footnote_re bol s =
     (case lit ''^['' s of
        None \<Rightarrow> None
      | Some r \<Rightarrow>
          if takeWhile (\<lambda>c. c \<noteq> CHR '']'') r = [] then None
          else (case lit '']'' (dropWhile (\<lambda>c. c \<noteq> CHR '']'') r) of
                  None \<Rightarrow> None
                | Some rest \<Rightarrow> Some (takeWhile (\<lambda>c. c \<noteq> CHR '']'') r, rest)))"

text \<open>\<open>^\[\^(\w+)\]:\s*(.+)$\<close> under \<open>re.MULTILINE\<close>.\<close>

definition footnote_def_re :: "(string \<times> string) matcher" where
  "footnote_def_re bol s =
     (if \<not> bol then None
      else (case lit ''[^'' s of
              None \<Rightarrow> None
            | Some r \<Rightarrow>
                if takeWhile isword r = [] then None
                else (case lit '']:'' (dropWhile isword r) of
                        None \<Rightarrow> None
                      | Some r1 \<Rightarrow>
                          (case ws_text 0 r1 of
                             None \<Rightarrow> None
                           | Some (t, rest) \<Rightarrow> Some ((takeWhile isword r, t), rest)))))"

text \<open>\<open>\[\^(\w+)\]\<close>.\<close>

definition footnote_ref_re :: "string matcher" where
  "footnote_ref_re bol s =
     (case lit ''[^'' s of
        None \<Rightarrow> None
      | Some r \<Rightarrow>
          if takeWhile isword r = [] then None
          else (case lit '']'' (dropWhile isword r) of
                  None \<Rightarrow> None
                | Some rest \<Rightarrow> Some (takeWhile isword r, rest)))"

definition extract_def :: "string \<times> string \<Rightarrow> (string \<Rightarrow> string option)
    \<Rightarrow> string \<times> (string \<Rightarrow> string option)" where
  "extract_def g footnote_defs = (case g of (key, txt) \<Rightarrow> ([], footnote_defs(key \<mapsto> txt)))"

definition replace_ref :: "(string \<Rightarrow> string option) \<Rightarrow> string \<Rightarrow> string" where
  "replace_ref footnote_defs key =
     (case footnote_defs key of
        Some txt \<Rightarrow> [bsl] @ ''footnote{'' @ txt @ ''}''
      | None \<Rightarrow> ''[^'' @ key @ '']'')"

definition convert_footnotes :: "string \<Rightarrow> string" where
  "convert_footnotes content =
     (let content1 = re_sub inline_footnote_re (\<lambda>g. [bsl] @ ''footnote{'' @ g @ ''}'') True
                       content
      in (case re_sub_st footnote_def_re extract_def True content1 Map.empty of
            (content2, footnote_defs) \<Rightarrow>
              re_sub footnote_ref_re (replace_ref footnote_defs) True content2))"


section \<open>The converter: tables\<close>

text \<open>The cells of a row: \<open>[cell.strip() for cell in line.split('|')[1:-1]]\<close>.\<close>

definition cells :: "string \<Rightarrow> string list" where
  "cells line = map strip (butlast (tl (split_on (CHR ''|'') line)))"

definition table_row :: "string list \<Rightarrow> string" where
  "table_row row = join '' & '' row @ '' '' @ [bsl, bsl, nl]"

definition convert_table :: "string list \<Rightarrow> string" where
  "convert_table table_lines =
     (if length table_lines < 2 then join [nl] table_lines
      else
        (let header = cells (hd table_lines);
             num_cols = length header;
             data_rows = filter (\<lambda>row. length row = num_cols) (map cells (drop 2 table_lines));
             col_spec = replicate num_cols (CHR ''l'')
         in [bsl] @ ''begin{tabular}{'' @ col_spec @ ''}'' @ [nl]
            @ [bsl] @ ''hline'' @ [nl]
            @ table_row header
            @ [bsl] @ ''hline'' @ [nl]
            @ concat (map table_row data_rows)
            @ [bsl] @ ''hline'' @ [nl]
            @ [bsl] @ ''end{tabular}''))"

definition table_line :: "string \<Rightarrow> bool" where
  "table_line line \<longleftrightarrow> CHR ''|'' \<in> set line \<and> take 1 (strip line) = ''|''"

fun tables_loop :: "bool \<Rightarrow> string list \<Rightarrow> string list \<Rightarrow> string list \<Rightarrow> string list" where
  "tables_loop in_table table_lines result [] =
     (if in_table then result @ [convert_table table_lines] else result)"
| "tables_loop in_table table_lines result (line # lines) =
     (if table_line line
      then tables_loop True ((if in_table then table_lines else []) @ [line]) result lines
      else tables_loop False []
             ((if in_table then result @ [convert_table table_lines] else result) @ [line])
             lines)"

definition convert_tables :: "string \<Rightarrow> string" where
  "convert_tables content = join [nl] (tables_loop False [] [] (split_on nl content))"


section \<open>The converter: headings, lists, emphasis and code\<close>

text \<open>\<open>heading_map.get(level, 'paragraph')\<close>.\<close>

definition heading_map :: "nat \<Rightarrow> string" where
  "heading_map level =
     (if level = 1 then ''section''
      else if level = 2 then ''subsection''
      else if level = 3 then ''subsubsection''
      else if level = 4 then ''paragraph''
      else if level = 5 then ''subparagraph''
      else if level = 6 then ''subparagraph''
      else ''paragraph'')"

definition replace_heading :: "string \<times> string \<Rightarrow> LatexConverter \<Rightarrow> string \<times> LatexConverter" where
  "replace_heading g cv =
     (case g of (hashes, title) \<Rightarrow>
        let level = length hashes;
            cmd = heading_map level;
            label = ''sec:'' @ replace_char (CHR '' '') ''_'' (lower title)
        in ([bsl] @ cmd @ ''{'' @ title @ ''}'' @ [bsl] @ ''label{'' @ label @ ''}'',
            cv\<lparr>label_counter := Suc (label_counter cv)\<rparr>))"

definition convert_headings :: "string \<Rightarrow> LatexConverter \<Rightarrow> string \<times> LatexConverter" where
  "convert_headings content cv = re_sub_st heading_re replace_heading True content cv"

text \<open>\<open>^(\s*)[-*+]\s+(.+)$\<close> and \<open>^(\s*)\d+\.\s+(.+)$\<close>, matched on one line: the item
  text. \<open>\d\<close> below 256 is the ten ASCII digits.\<close>

definition isdigit :: "char \<Rightarrow> bool" where
  "isdigit c \<longleftrightarrow> 48 \<le> (of_char c :: nat) \<and> (of_char c :: nat) \<le> 57"

definition unordered_re :: "string \<Rightarrow> string option" where
  "unordered_re line =
     (case dropWhile isspace line of
        [] \<Rightarrow> None
      | c # r \<Rightarrow>
          if c \<in> set ''-*+'' then map_option fst (ws_text 1 r) else None)"

definition ordered_re :: "string \<Rightarrow> string option" where
  "ordered_re line =
     (let r = dropWhile isspace line in
      if takeWhile isdigit r = [] then None
      else (case lit ''.'' (dropWhile isdigit r) of
              None \<Rightarrow> None
            | Some r1 \<Rightarrow> map_option fst (ws_text 1 r1)))"

fun lists_loop :: "bool \<Rightarrow> string \<Rightarrow> string list \<Rightarrow> string list \<Rightarrow> string list" where
  "lists_loop in_list list_type result [] =
     (if in_list then result @ [[bsl] @ ''end{'' @ list_type @ ''}''] else result)"
| "lists_loop in_list list_type result (line # lines) =
     (case (unordered_re line, ordered_re line) of
        (None, None) \<Rightarrow>
          lists_loop False []
            ((if in_list then result @ [[bsl] @ ''end{'' @ list_type @ ''}''] else result)
             @ [line]) lines
      | (unordered, ordered) \<Rightarrow>
          (let item_text = (case unordered of Some t \<Rightarrow> t
                            | None \<Rightarrow> (case ordered of Some t \<Rightarrow> t | None \<Rightarrow> []));
               current_type = (if unordered \<noteq> None then ''itemize'' else ''enumerate'');
               opened =
                 (if \<not> in_list then result @ [[bsl] @ ''begin{'' @ current_type @ ''}'']
                  else if list_type \<noteq> current_type
                  then result @ [[bsl] @ ''end{'' @ list_type @ ''}'',
                                 [bsl] @ ''begin{'' @ current_type @ ''}'']
                  else result)
           in lists_loop True current_type (opened @ [''  '' @ [bsl] @ ''item '' @ item_text])
                lines))"

definition convert_lists :: "string \<Rightarrow> string" where
  "convert_lists content = join [nl] (lists_loop False [] [] (split_on nl content))"

text \<open>The lazy group \<open>(.+?)\<close> followed by a closing literal: the shortest run of at least
  one character, none a newline, after which the literal stands.\<close>

fun lazy_until :: "string \<Rightarrow> string \<Rightarrow> (string \<times> string) option" where
  "lazy_until close [] = None"
| "lazy_until close (c # cs) =
     (if c = nl then None
      else (case lit close cs of
              Some rest \<Rightarrow> Some ([c], rest)
            | None \<Rightarrow> (case lazy_until close cs of
                         None \<Rightarrow> None
                       | Some (g, rest) \<Rightarrow> Some (c # g, rest))))"

text \<open>\<open>open(.+?)close\<close> for the four emphasis patterns.\<close>

definition span_re :: "string \<Rightarrow> string \<Rightarrow> string matcher" where
  "span_re opening close bol s =
     (case lit opening s of None \<Rightarrow> None | Some r \<Rightarrow> lazy_until close r)"

text \<open>The backquote pattern with its class \<open>[^`]+\<close>, which takes newlines too.\<close>

definition inline_code_re :: "string matcher" where
  "inline_code_re bol s =
     (case lit ''`'' s of
        None \<Rightarrow> None
      | Some r \<Rightarrow>
          if takeWhile (\<lambda>c. c \<noteq> CHR 0x60) r = [] then None
          else (case lit ''`'' (dropWhile (\<lambda>c. c \<noteq> CHR 0x60) r) of
                  None \<Rightarrow> None
                | Some rest \<Rightarrow> Some (takeWhile (\<lambda>c. c \<noteq> CHR 0x60) r, rest)))"

text \<open>The lazy group \<open>(.*?)\<close> under \<open>re.DOTALL\<close> followed by a closing literal: the text
  up to the first place where the literal stands.\<close>

fun lazy_any_until :: "string \<Rightarrow> string \<Rightarrow> (string \<times> string) option" where
  "lazy_any_until close [] = (if close = [] then Some ([], []) else None)"
| "lazy_any_until close (c # cs) =
     (case lit close (c # cs) of
        Some rest \<Rightarrow> Some ([], rest)
      | None \<Rightarrow> (case lazy_any_until close cs of
                   None \<Rightarrow> None
                 | Some (g, rest) \<Rightarrow> Some (c # g, rest)))"

text \<open>The fence pattern: three backquotes, \<open>(\w*)\<close>, a newline, \<open>(.*?)\<close>, three
  backquotes. The groups are the language tag and the code.\<close>

definition code_block_re :: "(string \<times> string) matcher" where
  "code_block_re bol s =
     (case lit ''```'' s of
        None \<Rightarrow> None
      | Some r \<Rightarrow>
          (case lit [nl] (dropWhile isword r) of
             None \<Rightarrow> None
           | Some r1 \<Rightarrow>
               (case lazy_any_until ''```'' r1 of
                  None \<Rightarrow> None
                | Some (code, rest) \<Rightarrow> Some ((takeWhile isword r, code), rest))))"

definition replace_code :: "string \<times> string \<Rightarrow> string" where
  "replace_code g =
     (case g of (lang, code) \<Rightarrow>
        [bsl] @ ''begin{verbatim}'' @ [nl] @ code @ [nl] @ [bsl] @ ''end{verbatim}'')"

definition convert_code_blocks :: "string \<Rightarrow> string" where
  "convert_code_blocks content = re_sub code_block_re replace_code True content"

definition wrap :: "string \<Rightarrow> string \<Rightarrow> string" where
  "wrap cmd g = [bsl] @ cmd @ ''{'' @ g @ ''}''"

definition convert_emphasis :: "string \<Rightarrow> string" where
  "convert_emphasis content =
     (let c1 = re_sub (span_re ''**'' ''**'') (wrap ''textbf'') True content;
          c2 = re_sub (span_re ''*'' ''*'') (wrap ''textit'') True c1;
          c3 = re_sub (span_re ''__'' ''__'') (wrap ''textbf'') True c2;
          c4 = re_sub (span_re ''_'' ''_'') (wrap ''textit'') True c3
      in re_sub inline_code_re (wrap ''texttt'') True c4)"

text \<open>The whole translation, in the order of the source.\<close>

definition convert_markdown_to_latex :: "Config \<Rightarrow> Vault \<Rightarrow> string \<Rightarrow> LatexConverter
    \<Rightarrow> error + string \<times> LatexConverter" where
  "convert_markdown_to_latex cfg v content cv =
     (case convert_images v (convert_tables (convert_footnotes content)) cv of
        Inl e \<Rightarrow> Inl e
      | Inr (content3, cv3) \<Rightarrow>
          (case convert_wikilinks cfg v content3 cv3 of
             (content4, cv4) \<Rightarrow>
               (case convert_headings content4 cv4 of
                  (content5, cv5) \<Rightarrow>
                    Inr (convert_code_blocks (convert_emphasis (convert_lists content5)),
                         cv5))))"


section \<open>The composed run\<close>



section \<open>Section extraction, as the specification words it\<close>

text \<open>The rank and the title of a heading line; the title is what the code compares,
  the second group without the white space around it.\<close>

definition heading_of :: "string \<Rightarrow> (nat \<times> string) option" where
  "heading_of line =
     (case heading_re True line of
        None \<Rightarrow> None
      | Some ((hashes, title), _) \<Rightarrow> Some (length hashes, strip title))"

text \<open>
  The lines strictly between the first heading whose title is the target, whatever its
  rank, and the next heading whose rank is not greater; \<open>None\<close> when no heading has that
  title.
\<close>

definition section_between :: "string list \<Rightarrow> string \<Rightarrow> string list option" where
  "section_between lines name =
     (case dropWhile (\<lambda>l. map_option snd (heading_of l) \<noteq> Some name) lines of
        [] \<Rightarrow> None
      | h # rest \<Rightarrow>
          (case heading_of h of
             None \<Rightarrow> None
           | Some (rank, _) \<Rightarrow>
               Some (takeWhile (\<lambda>l. case heading_of l of
                                       None \<Rightarrow> True
                                     | Some (r, _) \<Rightarrow> rank < r) rest)))"


section \<open>Texts in which the image patterns cannot match\<close>



section \<open>A small vault for concrete runs\<close>

text \<open>One note, \<open>Intro.md\<close>, whose text is a heading and a line with an embed of a
  note that the vault does not have; no attachments.\<close>

definition intro_vault :: Vault where
  "intro_vault =
     \<lparr>direct_file = (\<lambda>name. if name = ''Intro''
                              then Some (''# Intro'' @ [nl] @ ''Hello ![[World]]'') else None),
      searched_file = (\<lambda>_. None),
      yaml_ok = (\<lambda>_. True),
      attachment_exists = (\<lambda>_. False),
      note_path = (\<lambda>name. ''/vault/'' @ name @ ''.md'')\<rparr>"


section \<open>Facts about the matchers\<close>

lemma re_sub_st_match:
  assumes "m bol s = Some (g, rest)" "length rest < length s"
  shows "re_sub_st m repl bol s st =
     (case repl g st of (r, st1) \<Rightarrow>
        (case re_sub_st m repl (last (take (length s - length rest) s) = nl) rest st1 of
           (out, st2) \<Rightarrow> (r @ out, st2)))"
  using assms by (cases s) (auto split: prod.splits)

lemma takeWhile_all: "\<forall>c\<in>set xs. P c \<Longrightarrow> takeWhile P xs = xs"
  by (induction xs) auto

lemma dropWhile_all: "\<forall>c\<in>set xs. P c \<Longrightarrow> dropWhile P xs = []"
  by (induction xs) auto

lemma takeWhile_run:
  "\<forall>c\<in>set xs. P c \<Longrightarrow> ys = [] \<or> \<not> P (hd ys) \<Longrightarrow> takeWhile P (xs @ ys) = xs"
  by (induction xs) (auto, cases ys, auto)

lemma dropWhile_run:
  "\<forall>c\<in>set xs. P c \<Longrightarrow> ys = [] \<or> \<not> P (hd ys) \<Longrightarrow> dropWhile P (xs @ ys) = ys"
  by (induction xs) (auto, cases ys, auto)

text \<open>A heading on a line of its own: marks, white space, a title that starts with a
  character that is not white space.\<close>

lemma ws_text_line:
  assumes "w \<noteq> []" "\<forall>c\<in>set w. isspace c" "t \<noteq> []" "\<not> isspace (hd t)" "nl \<notin> set t"
  shows "ws_text 1 (w @ t) = Some (t, [])"
proof -
  have tw: "takeWhile isspace (w @ t) = w"
    using assms(2,4) by (intro takeWhile_run) auto
  have dw: "dropWhile isspace (w @ t) = t"
    using assms(2,4) by (intro dropWhile_run) auto
  have a: "takeWhile (\<lambda>c. c \<noteq> nl) t = t"
    using assms(5) by (intro takeWhile_all) auto
  have b: "dropWhile (\<lambda>c. c \<noteq> nl) t = []"
    using assms(5) by (intro dropWhile_all) auto
  show ?thesis
    unfolding ws_text_def Let_def tw dw a b
    using assms(1,3) by (simp add: Suc_le_eq)
qed

lemma heading_re_line:
  assumes "1 \<le> n" "n \<le> 6" "w \<noteq> []" "\<forall>c\<in>set w. isspace c"
    and "t \<noteq> []" "\<not> isspace (hd t)" "nl \<notin> set t"
  shows "heading_re True (replicate n (CHR ''#'') @ w @ t)
    = Some ((replicate n (CHR ''#''), t), [])"
proof -
  have nh: "\<not> (hd (w @ t) = CHR ''#'')"
    using assms(3,4) by (cases w) (auto simp: isspace_def)
  have tw: "takeWhile (\<lambda>c. c = CHR ''#'') (replicate n (CHR ''#'') @ (w @ t))
      = replicate n (CHR ''#'')"
    using nh by (intro takeWhile_run) auto
  have dw: "dropWhile (\<lambda>c. c = CHR ''#'') (replicate n (CHR ''#'') @ (w @ t)) = w @ t"
    using nh by (intro dropWhile_run) auto
  show ?thesis
    using assms(1,2) ws_text_line[OF assms(3-7)]
    by (simp add: heading_re_def tw dw)
qed

lemma lower_Intro: "lower ''Intro'' = ''intro''"
  by code_simp


lemma split_on_no_sep: "d \<notin> set a \<Longrightarrow> split_on d a = [a]"
  by (induction a) auto

lemma split_on_first: "d \<notin> set a \<Longrightarrow> split_on d (a @ d # b) = a # split_on d b"
  by (induction a) auto

lemma split_on_join:
  "ls \<noteq> [] \<Longrightarrow> \<forall>l\<in>set ls. nl \<notin> set l \<Longrightarrow> split_on nl (join [nl] ls) = ls"
proof (induction "[nl]" ls rule: join.induct)
  case 1
  then show ?case by simp
next
  case (2 x)
  then show ?case by (simp add: split_on_no_sep)
next
  case (3 x y ys)
  then show ?case by (simp add: split_on_first)
qed

text \<open>A run of table lines is collected into one block and converted once.\<close>

lemma tables_loop_block:
  "\<forall>l\<in>set ls. table_line l \<Longrightarrow> ls \<noteq> [] \<or> in_table \<Longrightarrow>
   tables_loop in_table tls res ls
     = res @ [convert_table ((if in_table then tls else []) @ ls)]"
proof (induction ls arbitrary: in_table tls)
  case Nil
  then show ?case by simp
next
  case (Cons l ls)
  then show ?case by simp
qed

lemma cells_examples:
  "cells ''| a | b |'' = [''a'', ''b'']"
  "cells ''| 1 | 2 |'' = [''1'', ''2'']"
  "cells ''| 3 |'' = [''3'']"
  "table_line ''| a | b |''"
  "table_line ''|---|---|''"
  "table_line ''| 1 | 2 |''"
  "table_line ''| 3 |''"
  by code_simp+


text \<open>The loop of \<open>extract_section\<close>, once inside the section and before it.\<close>

lemma extract_loop_inside:
  "extract_loop name True (Some lv) acc ls =
     (True, acc @ takeWhile (\<lambda>l. case heading_of l of
                                   None \<Rightarrow> True
                                 | Some (r, _) \<Rightarrow> lv < r) ls)"
  by (induction ls arbitrary: acc) (auto simp: heading_of_def split: option.splits)

lemma extract_loop_before:
  "extract_loop name False None [] ls =
     (case dropWhile (\<lambda>l. map_option snd (heading_of l) \<noteq> Some name) ls of
        [] \<Rightarrow> (False, [])
      | h # rest \<Rightarrow>
          (case heading_of h of
             None \<Rightarrow> (False, [])
           | Some (rank, _) \<Rightarrow> extract_loop name True (Some rank) [] rest))"
  by (induction ls) (auto simp: heading_of_def split: option.splits)


text \<open>An embed marker on a line of its own, and the same marker on two lines.\<close>

lemma lit_append: "lit p (p @ r) = Some r"
  by (simp add: lit_def)

lemma embed_token_re_token:
  assumes "f \<noteq> []" "CHR '']'' \<notin> set f"
  shows "embed_token_re b (''![['' @ f @ '']]'' @ r) = Some (''![['' @ f @ '']]'', r)"
proof -
  have l: "lit ''![['' (''![['' @ f @ '']]'' @ r) = Some (f @ '']]'' @ r)"
    by (rule lit_append)
  have tw: "takeWhile (\<lambda>c. c \<noteq> CHR '']'') (f @ '']]'' @ r) = f"
    using assms(2) by (intro takeWhile_run) auto
  have dw: "dropWhile (\<lambda>c. c \<noteq> CHR '']'') (f @ '']]'' @ r) = '']]'' @ r"
    using assms(2) by (intro dropWhile_run) auto
  show ?thesis
    unfolding embed_token_re_def l option.case Let_def tw dw lit_append
    using assms(1) by simp
qed

lemma resolve_embed_level: "resolve_embed v e l n p = resolve_embed v e 0 n p"
  by (simp add: resolve_embed_def)

lemma process_line_token:
  assumes "f \<noteq> []" "CHR '']'' \<notin> set f"
  shows "re_sub_st embed_token_re (replace_embed v l n) True (''![['' @ f @ '']]'') (Inr p)
     = (case resolve_embed v (''![['' @ f @ '']]'') 0 n p of
          Inl e \<Rightarrow> ([], Inl e)
        | Inr (out, p') \<Rightarrow> (out, Inr p'))"
proof -
  have m: "embed_token_re True (''![['' @ f @ '']]'') = Some (''![['' @ f @ '']]'', [])"
    using embed_token_re_token[OF assms, of True "[]"] by simp
  have len: "length ([]::string) < length (''![['' @ f @ '']]'')" by simp
  show ?thesis
    using re_sub_st_match[of embed_token_re True "''![['' @ f @ '']]''" "''![['' @ f @ '']]''" "[]"
        "replace_embed v l n" "Inr p", OF m len]
    by (simp add: replace_embed_def resolve_embed_level[of v _ l] split: prod.splits sum.splits)
qed

lemma search_token:
  assumes "f \<noteq> []" "CHR '']'' \<notin> set f"
  shows "re_search embed_token_re True (''![['' @ f @ '']]'')"
  using embed_token_re_token[OF assms, of True "[]"] by simp

lemma process_embeds_token:
  assumes "f \<noteq> []" "CHR '']'' \<notin> set f" "nl \<notin> set f"
  shows "process_embeds v (''![['' @ f @ '']]'') p = resolve_embed v (''![['' @ f @ '']]'') 0 1 p"
proof -
  define t where "t = ''![['' @ f @ '']]''"
  have s: "split_on nl t = [t]"
    unfolding t_def using assms(3) by (intro split_on_no_sep) auto
  have a: "re_search embed_token_re True t"
    unfolding t_def by (rule search_token[OF assms(1,2)])
  have b: "re_sub_st embed_token_re (replace_embed v l n) True t (Inr q)
      = (case resolve_embed v t 0 n q of
           Inl e \<Rightarrow> ([], Inl e)
         | Inr (out, p') \<Rightarrow> (out, Inr p'))" for l n q
    unfolding t_def by (rule process_line_token[OF assms(1,2)])
  have "process_embeds v t p = resolve_embed v t 0 1 p"
    unfolding process_embeds_def s
    by (simp add: a b split: prod.splits sum.splits)
  then show ?thesis unfolding t_def .
qed

lemma process_embeds_token_twice:
  assumes "f \<noteq> []" "CHR '']'' \<notin> set f" "nl \<notin> set f"
  shows "process_embeds v ((''![['' @ f @ '']]'') @ [nl] @ (''![['' @ f @ '']]'')) p =
     (case resolve_embed v (''![['' @ f @ '']]'') 0 1 p of
        Inl e \<Rightarrow> Inl e
      | Inr (out1, p1) \<Rightarrow>
          (case resolve_embed v (''![['' @ f @ '']]'') 0 2 p1 of
             Inl e \<Rightarrow> Inl e
           | Inr (out2, p2) \<Rightarrow> Inr (out1 @ [nl] @ out2, p2)))"
proof -
  define t where "t = ''![['' @ f @ '']]''"
  have n: "nl \<notin> set t"
    unfolding t_def using assms(3) by auto
  have s: "split_on nl (t @ [nl] @ t) = [t, t]"
    using split_on_first[OF n, of t] split_on_no_sep[OF n] by simp
  have a: "re_search embed_token_re True t"
    unfolding t_def by (rule search_token[OF assms(1,2)])
  have b: "re_sub_st embed_token_re (replace_embed v l n) True t (Inr q)
      = (case resolve_embed v t 0 n q of
           Inl e \<Rightarrow> ([], Inl e)
         | Inr (out, p') \<Rightarrow> (out, Inr p'))" for l n q
    unfolding t_def by (rule process_line_token[OF assms(1,2)])
  have "process_embeds v (t @ [nl] @ t) p =
     (case resolve_embed v t 0 1 p of
        Inl e \<Rightarrow> Inl e
      | Inr (out1, p1) \<Rightarrow>
          (case resolve_embed v t 0 2 p1 of
             Inl e \<Rightarrow> Inl e
           | Inr (out2, p2) \<Rightarrow> Inr (out1 @ [nl] @ out2, p2)))"
    unfolding process_embeds_def s
    by (simp add: a b numeral_2_eq_2 split: prod.splits sum.splits)
  then show ?thesis unfolding t_def .
qed

lemma resolve_embed_records_key:
  assumes "embed_re True e = Some ((g1, g2), r)"
    and "resolve_embed v e l n p = Inr (out, p1)"
  shows "key_of (strip g1) (stripped_group g2) \<in> embedded_files p1"
  using assms
  by (auto simp: resolve_embed_def Let_def split: option.splits prod.splits sum.splits if_splits)

lemma resolve_embed_duplicate:
  assumes "embed_re True e = Some ((g1, g2), r)"
    and "key_of (strip g1) (stripped_group g2) \<in> embedded_files p"
  shows "resolve_embed v e l n p =
     Inr ([], p\<lparr>stats := add_warning (''Duplicate embed skipped: ''
            @ key_of (strip g1) (stripped_group g2)
            @ '' (line '' @ show_nat n @ '')'') (stats p)\<rparr>)"
  using assms by (simp add: resolve_embed_def Let_def)

lemma show_nat_2: "show_nat 2 = ''2''"
  by (simp add: show_nat.simps)

























text \<open>Demotion on a heading line of its own, and on a text without marks: the rank
  becomes the smaller of the rank plus the shift and 6, and a text without marks is
  returned as it is.\<close>

lemma re_sub_match:
  assumes "m bol s = Some (g, rest)" "length rest < length s"
  shows "re_sub m repl bol s =
     repl g @ re_sub m repl (last (take (length s - length rest) s) = nl) rest"
  using assms by (cases s) auto

lemma demote_headings_line:
  assumes "1 \<le> n" "n \<le> 6" "w \<noteq> []" "\<forall>c\<in>set w. isspace c"
    and "t \<noteq> []" "\<not> isspace (hd t)" "nl \<notin> set t"
  shows "demote_headings (replicate n (CHR ''#'') @ w @ t) levels
    = replicate (min (n + levels) 6) (CHR ''#'') @ '' '' @ t"
proof -
  have l: "length ([]::string) < length (replicate n (CHR ''#'') @ w @ t)"
    using assms(3) by simp
  show ?thesis
    unfolding demote_headings_def
    using re_sub_match[of heading_re True "replicate n (CHR ''#'') @ w @ t"
        "(replicate n (CHR ''#''), t)" "[]" "demoted levels", OF heading_re_line[OF assms] l]
    by (simp add: demoted_def)
qed

lemma heading_re_no_mark: "s = [] \<or> hd s \<noteq> CHR ''#'' \<Longrightarrow> heading_re b s = None"
  by (cases s) (auto simp: heading_re_def)

lemma re_sub_no_mark: "CHR ''#'' \<notin> set s \<Longrightarrow> re_sub heading_re repl b s = s"
proof (induction s arbitrary: b)
  case Nil
  then show ?case by simp
next
  case (Cons c cs)
  have "heading_re b (c # cs) = None"
    using Cons.prems by (intro heading_re_no_mark) auto
  then show ?case using Cons by simp
qed

lemma demote_headings_no_mark: "CHR ''#'' \<notin> set s \<Longrightarrow> demote_headings s levels = s"
  by (simp add: demote_headings_def re_sub_no_mark)
























section \<open>Properties of embed resolution\<close>

lemmas embed_defs = process_embeds_def embed_token_re_def replace_embed_def lit_def
  resolve_embed_def embed_re_def strip_def isspace_def stripped_group_def key_of_def
  new_parser_def new_stats_def read_file_def demote_headings_def heading_re_def ws_text_def
  demoted_def Let_def add_warning_def

lemmas vault_defs = find_file_def rglob_check_def pattern_parts_def intro_vault_def

text \<open>
  Claim C1, as the code has it. For a master body \<open>![[Intro]]\<close> in a vault where the
  lookup of \<open>Intro\<close> finds the heading \<open># Intro\<close> followed by the line
  \<open>Hello ![[World]]\<close>, embed resolution yields the heading demoted to the second level
  followed by the line \<open>Hello ![[World]]\<close> as it stands: the text of an embedded note is
  not scanned for embeds, so the inner marker stays, whether or not \<open>World.md\<close> exists.
  No warning is recorded, \<open>Intro\<close> is the only key and the only embedded file, and one
  section is counted.
\<close>

theorem process_embeds_inner_marker_kept:
  assumes "find_file v ''Intro'' = Inr (Some (''# Intro'' @ [nl] @ ''Hello ![[World]]''))"
  shows "process_embeds v ''![[Intro]]'' (new_parser new_stats) =
     Inr (''## Intro'' @ [nl] @ ''Hello ![[World]]'',
      \<lparr>embedded_files = {''Intro''},
       stats = new_stats\<lparr>files_embedded := {''Intro''}, sections_processed := 1\<rparr>\<rparr>)"
  using assms by (simp add: embed_defs)

theorem process_embeds_inner_marker_kept_witness:
  "find_file intro_vault ''Intro'' = Inr (Some (''# Intro'' @ [nl] @ ''Hello ![[World]]'')) \<and>
   process_embeds intro_vault ''![[Intro]]'' (new_parser new_stats) =
     Inr (''## Intro'' @ [nl] @ ''Hello ![[World]]'',
      \<lparr>embedded_files = {''Intro''},
       stats = new_stats\<lparr>files_embedded := {''Intro''}, sections_processed := 1\<rparr>\<rparr>)"
proof -
  have h: "find_file intro_vault ''Intro''
      = Inr (Some (''# Intro'' @ [nl] @ ''Hello ![[World]]''))"
    by (simp add: vault_defs)
  show ?thesis
    using h process_embeds_inner_marker_kept [OF h] by simp
qed

text \<open>
  The claim as the specification words it fails on that vault, where \<open>World.md\<close> is
  missing: the run of the embed pass ends without an exception, the resolved text is not
  the demoted heading followed by \<open>Hello\<close> and a missing-file marker for \<open>World\<close>, and
  the list of warnings is empty, not of length two.
\<close>

theorem process_embeds_inner_marker_counterexample:
  "find_file intro_vault ''World'' = Inr None \<and>
   (case process_embeds intro_vault ''![[Intro]]'' (new_parser new_stats) of
      Inl e \<Rightarrow> False
    | Inr (text, p) \<Rightarrow>
        text \<noteq> ''## Intro'' @ [nl] @ ''Hello [MISSING: World]''
        \<and> length (warnings (stats p)) \<noteq> 2)"
  by (simp add: embed_defs vault_defs)


section \<open>Properties of the translation passes\<close>

lemmas link_defs = convert_wikilinks_def wikilink_re_def replace_link_def lit_def strip_def
  isspace_def stripped_group_def key_of_def replace_char_def Let_def

lemmas conv_defs = convert_markdown_to_latex_def convert_images_def convert_tables_def
  convert_footnotes_def convert_headings_def convert_lists_def convert_emphasis_def
  convert_code_blocks_def inline_footnote_re_def footnote_def_re_def footnote_ref_re_def
  table_line_def image_embed_re_def image_link_re_def heading_re_def ws_text_def
  unordered_re_def ordered_re_def span_re_def inline_code_re_def code_block_re_def
  wrap_def isdigit_def isword_def

text \<open>
  Claim C7. Whatever the configuration and the rest of the converter's state: when
  \<open>Intro\<close> is in the set of embedded files, the link \<open>[[Intro|See it]]\<close> becomes a
  \<open>\hyperref\<close> whose text is \<open>See it\<close> (to the stored label of \<open>Intro\<close>, or to \<open>sec:Intro\<close>
  when none is stored) and the counter of internal links goes up by exactly one; when
  \<open>Nowhere\<close> is not in the set, the link \<open>[[Nowhere]]\<close> becomes an \<open>\href\<close> to the
  note-application address or to the file path, and the state is left as it was.
\<close>

theorem convert_wikilinks_internal_external:
  "(''Intro'' \<in> files_embedded (conv_stats cv) \<longrightarrow>
      convert_wikilinks cfg v ''[[Intro|See it]]'' cv =
        ([bsl] @ ''hyperref[''
           @ (case section_labels cv ''Intro'' of Some l \<Rightarrow> l | None \<Rightarrow> ''sec:Intro'')
           @ '']{See it}'',
         cv\<lparr>conv_stats := (conv_stats cv)\<lparr>internal_links :=
                 Suc (internal_links (conv_stats cv))\<rparr>\<rparr>))
   \<and> (''Nowhere'' \<notin> files_embedded (conv_stats cv) \<longrightarrow>
      convert_wikilinks cfg v ''[[Nowhere]]'' cv =
        ((if obsidian_uri cfg
          then [bsl] @ ''href{obsidian://open?vault='' @ vault_name cfg
                 @ ''&file=Nowhere}{Nowhere}''
          else [bsl] @ ''href{file://'' @ note_path v ''Nowhere'' @ ''}{Nowhere}''), cv))"
  by (simp add: link_defs split: option.splits)

theorem convert_wikilinks_internal_external_witness:
  "''Intro'' \<in> files_embedded (conv_stats (new_converter (new_stats\<lparr>files_embedded := {''Intro''}\<rparr>)))
   \<and> ''Nowhere'' \<notin> files_embedded (conv_stats (new_converter (new_stats\<lparr>files_embedded := {''Intro''}\<rparr>)))
   \<and> convert_wikilinks \<lparr>vault_name = ''V'', obsidian_uri = True\<rparr> intro_vault
        ''[[Intro|See it]]'' (new_converter (new_stats\<lparr>files_embedded := {''Intro''}\<rparr>)) =
        ([bsl] @ ''hyperref[sec:Intro]{See it}'',
         new_converter (new_stats\<lparr>files_embedded := {''Intro''}, internal_links := 1\<rparr>))
   \<and> convert_wikilinks \<lparr>vault_name = ''V'', obsidian_uri = True\<rparr> intro_vault
        ''[[Nowhere]]'' (new_converter (new_stats\<lparr>files_embedded := {''Intro''}\<rparr>)) =
        ([bsl] @ ''href{obsidian://open?vault=V&file=Nowhere}{Nowhere}'',
         new_converter (new_stats\<lparr>files_embedded := {''Intro''}\<rparr>))"
  using convert_wikilinks_internal_external
    [of "new_converter (new_stats\<lparr>files_embedded := {''Intro''}\<rparr>)"
        "\<lparr>vault_name = ''V'', obsidian_uri = True\<rparr>" intro_vault]
  by (simp add: new_converter_def new_stats_def)

text \<open>
  Claim C2 fails on the code. A document that is one fenced block with the interior
  \<open>code\<close> does not come out as a verbatim block: the pass for inline code runs before the
  pass for fenced blocks, its pattern starts at the third backquote of the opening fence
  and ends at the first backquote of the closing one, and the fence pattern then finds
  nothing to match. This holds for every configuration, vault and converter state.
\<close>

theorem fenced_block_taken_by_inline_code:
  "convert_markdown_to_latex cfg v (''```'' @ [nl] @ ''code'' @ [nl] @ ''```'') cv =
     Inr (''``'' @ [bsl] @ ''texttt{'' @ [nl] @ ''code'' @ [nl] @ ''}``'', cv)"
  by (simp add: conv_defs link_defs)

text \<open>
  Claim C8 fails on the code. The white space after the marks may be a newline, so a
  line that holds only a mark is joined with the line after it: the two lines \<open>#\<close> and
  \<open>foo\<close>, neither of which is a heading line, become the one heading \<open>## foo\<close>.
\<close>

theorem demote_headings_joins_lines:
  "demote_headings (''#'' @ [nl] @ ''foo'') 1 = ''## foo''"
  by (simp add: demote_headings_def heading_re_def ws_text_def demoted_def isspace_def)


text \<open>
  Claim C3, as the code has it. A heading line of rank \<open>n\<close> between 1 and 6 (the marks,
  white space, a title) becomes the sectioning command of \<open>heading_map\<close> for that rank
  with the title, followed at once by a label \<open>sec:\<close> plus the title in lower case with
  each space replaced by an underscore; the counter of labels goes up by one. The
  commands for ranks 1 to 6 are \<open>section\<close>, \<open>subsection\<close>, \<open>subsubsection\<close>, \<open>paragraph\<close>,
  \<open>subparagraph\<close>, \<open>subparagraph\<close>: four different commands for ranks 1 to 4, and only
  ranks 5 and 6 share the deepest one.
\<close>

theorem convert_headings_line:
  assumes "1 \<le> n" "n \<le> 6" "w \<noteq> []" "\<forall>c\<in>set w. isspace c"
    and "t \<noteq> []" "\<not> isspace (hd t)" "nl \<notin> set t"
  shows "convert_headings (replicate n (CHR ''#'') @ w @ t) cv =
      ([bsl] @ heading_map n @ ''{'' @ t @ ''}'' @ [bsl] @ ''label{sec:''
         @ replace_char (CHR '' '') ''_'' (lower t) @ ''}'',
       cv\<lparr>label_counter := Suc (label_counter cv)\<rparr>)
    \<and> heading_map n = [''section'', ''subsection'', ''subsubsection'', ''paragraph'',
         ''subparagraph'', ''subparagraph''] ! (n - 1)"
proof -
  have l: "length ([]::string) < length (replicate n (CHR ''#'') @ w @ t)"
    using assms(3) by simp
  have 1: "convert_headings (replicate n (CHR ''#'') @ w @ t) cv =
      ([bsl] @ heading_map n @ ''{'' @ t @ ''}'' @ [bsl] @ ''label{sec:''
         @ replace_char (CHR '' '') ''_'' (lower t) @ ''}'',
       cv\<lparr>label_counter := Suc (label_counter cv)\<rparr>)"
    unfolding convert_headings_def
    using re_sub_st_match[of heading_re True "replicate n (CHR ''#'') @ w @ t"
        "(replicate n (CHR ''#''), t)" "[]" replace_heading cv, OF heading_re_line[OF assms] l]
    by (simp add: replace_heading_def)
  have "n = 1 \<or> n = 2 \<or> n = 3 \<or> n = 4 \<or> n = 5 \<or> n = 6"
    using assms(1,2) by arith
  then have 2: "heading_map n = [''section'', ''subsection'', ''subsubsection'',
      ''paragraph'', ''subparagraph'', ''subparagraph''] ! (n - 1)"
    by (elim disjE) (simp_all add: heading_map_def)
  show ?thesis using 1 2 by simp
qed

theorem convert_headings_line_witness:
  "(1::nat) \<le> 2 \<and> (2::nat) \<le> 6 \<and> \<not> isspace (hd ''Intro'') \<and> nl \<notin> set ''Intro''
   \<and> convert_headings ''## Intro'' (new_converter new_stats) =
       ([bsl] @ ''subsection{Intro}'' @ [bsl] @ ''label{sec:intro}'',
        (new_converter new_stats)\<lparr>label_counter := 1\<rparr>)
   \<and> heading_map 2 = ''subsection''"
proof -
  have h: "(1::nat) \<le> 2" "(2::nat) \<le> 6" "'' '' \<noteq> []" "\<forall>c\<in>set '' ''. isspace c"
    "''Intro'' \<noteq> []" "\<not> isspace (hd ''Intro'')" "nl \<notin> set ''Intro''"
    by (simp_all add: isspace_def)
  show ?thesis
    using h convert_headings_line [OF h, of "new_converter new_stats"]
    by (simp add: numeral_2_eq_2 lower_Intro replace_char_def new_converter_def)
qed

text \<open>
  The claim as the specification words it, that ranks 4 to 6 all give the one deepest
  command, fails at rank 4: \<open>#### T\<close> becomes a \<open>\paragraph\<close> and \<open>###### T\<close> a
  \<open>\subparagraph\<close>.
\<close>

theorem convert_headings_rank4_counterexample:
  "fst (convert_headings ''#### T'' (new_converter new_stats))
     = [bsl] @ ''paragraph{T}'' @ [bsl] @ ''label{sec:t}''
   \<and> fst (convert_headings ''###### T'' (new_converter new_stats))
     = [bsl] @ ''subparagraph{T}'' @ [bsl] @ ''label{sec:t}''
   \<and> heading_map 4 \<noteq> heading_map 6"
  by code_simp


text \<open>
  Claim C5. For a table block with a header line, a second line and data lines, where
  the header has \<open>M\<close> cells: the output is the \<open>tabular\<close> frame with \<open>M\<close> columns, the
  header row, and after it exactly the data lines that have \<open>M\<close> cells, in order, each
  with its cells joined by \<open> & \<close> and ended by \<open> \\\<close> and a newline; a data line with
  another number of cells contributes nothing. The second line is never looked at: any
  other line in its place gives the same output. The function has no access to the
  statistics, so nothing is warned. A text made of such a block alone, every line a
  table line, is converted by \<open>convert_tables\<close> to just that.
\<close>

theorem convert_table_rows:
  "convert_table (header # separator # rows) =
     [bsl] @ ''begin{tabular}{'' @ replicate (length (cells header)) (CHR ''l'') @ ''}'' @ [nl]
     @ [bsl] @ ''hline'' @ [nl]
     @ join '' & '' (cells header) @ '' '' @ [bsl, bsl, nl]
     @ [bsl] @ ''hline'' @ [nl]
     @ concat (map (\<lambda>line. join '' & '' (cells line) @ '' '' @ [bsl, bsl, nl])
         (filter (\<lambda>line. length (cells line) = length (cells header)) rows))
     @ [bsl] @ ''hline'' @ [nl]
     @ [bsl] @ ''end{tabular}''
   \<and> convert_table (header # separator # rows) = convert_table (header # other # rows)
   \<and> ((\<forall>l\<in>set (header # separator # rows). table_line l \<and> nl \<notin> set l) \<longrightarrow>
        convert_tables (join [nl] (header # separator # rows))
          = convert_table (header # separator # rows))"
proof -
  have "convert_tables (join [nl] (header # separator # rows))
          = convert_table (header # separator # rows)"
    if a: "\<forall>l\<in>set (header # separator # rows). table_line l \<and> nl \<notin> set l"
  proof -
    have s: "split_on nl (join [nl] (header # separator # rows)) = header # separator # rows"
      using a by (intro split_on_join) auto
    have t: "tables_loop False [] [] (header # separator # rows)
        = [] @ [convert_table ((if False then [] else []) @ (header # separator # rows))]"
      using a by (intro tables_loop_block) auto
    show ?thesis unfolding convert_tables_def s t by simp
  qed
  then show ?thesis
    by (simp add: convert_table_def Let_def table_row_def filter_map comp_def)
qed

theorem convert_table_rows_witness:
  "table_line ''| a | b |'' \<and> table_line ''|---|---|'' \<and> table_line ''| 1 | 2 |''
   \<and> table_line ''| 3 |''
   \<and> convert_tables
        (''| a | b |'' @ [nl] @ ''|---|---|'' @ [nl] @ ''| 1 | 2 |'' @ [nl] @ ''| 3 |'')
     = [bsl] @ ''begin{tabular}{ll}'' @ [nl] @ [bsl] @ ''hline'' @ [nl]
       @ ''a & b '' @ [bsl, bsl, nl] @ [bsl] @ ''hline'' @ [nl]
       @ ''1 & 2 '' @ [bsl, bsl, nl] @ [bsl] @ ''hline'' @ [nl] @ [bsl] @ ''end{tabular}''"
  using convert_table_rows
    [of "''| a | b |''" "''|---|---|''" "[''| 1 | 2 |'', ''| 3 |'']"]
  by (simp add: cells_examples numeral_2_eq_2)


section \<open>Properties of section extraction\<close>

text \<open>
  Claim C6. For every body text and target title, \<open>extract_section\<close> returns the lines
  strictly between the first heading whose title is the target (compared exactly, so
  with case, and whatever the rank) and the next heading of the same or a higher rank,
  joined by newlines, and leaves the statistics alone; when no heading has the title it
  returns \<open>None\<close> and records the warning. A heading that is found with nothing under
  it gives \<open>Some\<close> of the empty text, which is not \<open>None\<close>.
\<close>

theorem extract_section_between:
  "extract_section content section_name st =
     (case section_between (split_on nl content) section_name of
        None \<Rightarrow> (None, add_warning (''Section '' @ [CHR 0x27] @ section_name @ [CHR 0x27]
                        @ '' not found'') st)
      | Some ls \<Rightarrow> (Some (join [nl] ls), st))"
proof -
  define D where
    "D = dropWhile (\<lambda>l. map_option snd (heading_of l) \<noteq> Some section_name)
           (split_on nl content)"
  have a: "extract_loop section_name False None [] (split_on nl content) =
     (case D of
        [] \<Rightarrow> (False, [])
      | h # rest \<Rightarrow>
          (case heading_of h of
             None \<Rightarrow> (False, [])
           | Some (rank, _) \<Rightarrow> extract_loop section_name True (Some rank) [] rest))"
    unfolding D_def by (rule extract_loop_before)
  have b: "section_between (split_on nl content) section_name =
     (case D of
        [] \<Rightarrow> None
      | h # rest \<Rightarrow>
          (case heading_of h of
             None \<Rightarrow> None
           | Some (rank, _) \<Rightarrow>
               Some (takeWhile (\<lambda>l. case heading_of l of
                                       None \<Rightarrow> True
                                     | Some (r, _) \<Rightarrow> rank < r) rest)))"
    unfolding D_def section_between_def ..
  show ?thesis
    unfolding extract_section_def a b
    by (cases D) (simp_all add: extract_loop_inside split: option.splits)
qed

text \<open>On the text \<open># A / x / ## B / ### C / y / ## D / w\<close>: the section \<open>B\<close> holds its
  subsection and stops at \<open>D\<close>; the section \<open>D\<close> of the text \<open>## D / # E\<close> is found and
  empty; the title \<open>b\<close> is not found.\<close>

theorem extract_section_between_witness:
  "extract_section (''# A'' @ [nl] @ ''x'' @ [nl] @ ''## B'' @ [nl] @ ''### C'' @ [nl] @ ''y''
       @ [nl] @ ''## D'' @ [nl] @ ''w'') ''B'' new_stats
     = (Some (''### C'' @ [nl] @ ''y''), new_stats)
   \<and> extract_section (''## D'' @ [nl] @ ''# E'') ''D'' new_stats = (Some [], new_stats)
   \<and> extract_section (''## D'' @ [nl] @ ''# E'') ''d'' new_stats
     = (None, new_stats\<lparr>warnings := [''Section '' @ [CHR 0x27] @ ''d'' @ [CHR 0x27]
          @ '' not found'']\<rparr>)"
proof -
  have 1: "section_between (split_on nl (''# A'' @ [nl] @ ''x'' @ [nl] @ ''## B'' @ [nl]
      @ ''### C'' @ [nl] @ ''y'' @ [nl] @ ''## D'' @ [nl] @ ''w'')) ''B'' = Some [''### C'', ''y'']"
    by code_simp
  have 2: "section_between (split_on nl (''## D'' @ [nl] @ ''# E'')) ''D'' = Some []"
    by code_simp
  have 3: "section_between (split_on nl (''## D'' @ [nl] @ ''# E'')) ''d'' = None"
    by code_simp
  show ?thesis
    using extract_section_between [of "''# A'' @ [nl] @ ''x'' @ [nl] @ ''## B'' @ [nl]
        @ ''### C'' @ [nl] @ ''y'' @ [nl] @ ''## D'' @ [nl] @ ''w''" "''B''" new_stats]
      extract_section_between [of "''## D'' @ [nl] @ ''# E''" "''D''" new_stats]
      extract_section_between [of "''## D'' @ [nl] @ ''# E''" "''d''" new_stats]
    unfolding 1 2 3
    by (simp add: add_warning_def new_stats_def)
qed


section \<open>Duplicate and missing embeds\<close>

lemma intro_run:
  "process_embeds intro_vault ''![[Intro]]'' (new_parser new_stats) =
     Inr (''## Intro'' @ [nl] @ ''Hello ![[World]]'',
      \<lparr>embedded_files = {''Intro''},
       stats = new_stats\<lparr>files_embedded := {''Intro''}, sections_processed := 1\<rparr>\<rparr>)"
  by (simp add: embed_defs vault_defs)

lemma embed_re_Intro: "embed_re True ''![[Intro]]'' = Some ((''Intro'', None), [])"
  by (simp add: embed_re_def lit_def)

text \<open>
  Claim C4. Take an embed marker that the resolver can read, with key \<open>k\<close>. In any state
  that holds \<open>k\<close> already, resolving the marker gives the empty text and adds exactly one
  warning, which names \<open>k\<close> and the line number; nothing else changes, and the file is
  not looked up. So a text with the marker on line 1 and again on line 2 resolves to
  what the marker alone resolves to, followed by a newline and nothing more, and its
  warnings are those of the first occurrence followed by the one warning for line 2; if
  the first occurrence ends the run with an exception, so does the text with both.
\<close>

theorem duplicate_embed_dropped:
  assumes "f \<noteq> []" "CHR '']'' \<notin> set f" "nl \<notin> set f"
    and "embed_re True (''![['' @ f @ '']]'') = Some ((g1, g2), r)"
  shows "process_embeds v ((''![['' @ f @ '']]'') @ [nl] @ (''![['' @ f @ '']]'')) p =
     (case process_embeds v (''![['' @ f @ '']]'') p of
        Inl e \<Rightarrow> Inl e
      | Inr (out1, p1) \<Rightarrow>
          Inr (out1 @ [nl],
           p1\<lparr>stats := add_warning (''Duplicate embed skipped: ''
                  @ key_of (strip g1) (stripped_group g2) @ '' (line 2)'') (stats p1)\<rparr>))
    \<and> (key_of (strip g1) (stripped_group g2) \<in> embedded_files q \<longrightarrow>
         resolve_embed v (''![['' @ f @ '']]'') l n q =
           Inr ([], q\<lparr>stats := add_warning (''Duplicate embed skipped: ''
                  @ key_of (strip g1) (stripped_group g2)
                  @ '' (line '' @ show_nat n @ '')'') (stats q)\<rparr>))"
proof -
  define t where "t = ''![['' @ f @ '']]''"
  define dup where "dup = ''Duplicate embed skipped: ''
    @ key_of (strip g1) (stripped_group g2) @ '' (line 2)''"
  have parse: "embed_re True t = Some ((g1, g2), r)"
    unfolding t_def by (rule assms(4))
  have one: "process_embeds v t p = resolve_embed v t 0 1 p"
    unfolding t_def by (rule process_embeds_token[OF assms(1-3)])
  have two: "process_embeds v (t @ [nl] @ t) p =
     (case resolve_embed v t 0 1 p of
        Inl e \<Rightarrow> Inl e
      | Inr (out1, p1) \<Rightarrow>
          (case resolve_embed v t 0 2 p1 of
             Inl e \<Rightarrow> Inl e
           | Inr (out2, p2) \<Rightarrow> Inr (out1 @ [nl] @ out2, p2)))"
    unfolding t_def by (rule process_embeds_token_twice[OF assms(1-3)])
  have both: "process_embeds v (t @ [nl] @ t) p =
     (case process_embeds v t p of
        Inl e \<Rightarrow> Inl e
      | Inr (out1, p1) \<Rightarrow> Inr (out1 @ [nl], p1\<lparr>stats := add_warning dup (stats p1)\<rparr>))"
  proof (cases "resolve_embed v t 0 1 p")
    case (Inl e)
    then show ?thesis unfolding one two by simp
  next
    case (Inr a)
    obtain out1 p1 where a: "a = (out1, p1)" by (cases a)
    have r1: "resolve_embed v t 0 1 p = Inr (out1, p1)" using Inr a by simp
    have k: "key_of (strip g1) (stripped_group g2) \<in> embedded_files p1"
      by (rule resolve_embed_records_key[OF parse r1])
    have r2: "resolve_embed v t 0 2 p1 = Inr ([], p1\<lparr>stats := add_warning dup (stats p1)\<rparr>)"
      unfolding dup_def using resolve_embed_duplicate[OF parse k, of v 0 2] show_nat_2 by simp
    show ?thesis unfolding one two r1 by (simp add: r2)
  qed
  have three: "key_of (strip g1) (stripped_group g2) \<in> embedded_files q \<longrightarrow>
         resolve_embed v t l n q =
           Inr ([], q\<lparr>stats := add_warning (''Duplicate embed skipped: ''
                  @ key_of (strip g1) (stripped_group g2)
                  @ '' (line '' @ show_nat n @ '')'') (stats q)\<rparr>)"
    using resolve_embed_duplicate[OF parse, of q v l n] by blast
  show ?thesis
    using both three unfolding t_def dup_def by simp
qed

theorem duplicate_embed_dropped_witness:
  "process_embeds intro_vault (''![[Intro]]'' @ [nl] @ ''![[Intro]]'') (new_parser new_stats) =
     Inr (''## Intro'' @ [nl] @ ''Hello ![[World]]'' @ [nl],
      \<lparr>embedded_files = {''Intro''},
       stats = new_stats\<lparr>files_embedded := {''Intro''}, sections_processed := 1,
                 warnings := [''Duplicate embed skipped: Intro (line 2)'']\<rparr>\<rparr>)"
proof -
  have h: "''Intro'' \<noteq> []" "CHR '']'' \<notin> set ''Intro''" "nl \<notin> set ''Intro''"
    "embed_re True (''![['' @ ''Intro'' @ '']]'') = Some ((''Intro'', None), [])"
    using embed_re_Intro by simp_all
  have s: "strip ''Intro'' = ''Intro''"
    by (simp add: strip_def isspace_def)
  have w: "warnings new_stats = []"
    by (simp add: new_stats_def)
  show ?thesis
    using duplicate_embed_dropped [OF h, where v = intro_vault and p = "new_parser new_stats"
        and q = "new_parser new_stats" and l = 0 and n = 1]
    by (simp add: intro_run s key_of_def stripped_group_def add_warning_def w)
qed







section \<open>Image embeds in the composed run\<close>







end
